theory Spec2Isabelle
  imports Main "HOL-Library.Word"
begin

section \<open>The multicast announcer docs/MCsend.py\<close>

text \<open>
  The script is a straight line of three calls into Python's socket module: it creates a
  socket, sets one option on it and sends one datagram. Everything it does is an effect on
  the operating system, so the model is a small process state (the descriptor table, the
  datagrams handed to the network, a log of the system calls made) that every call takes
  and returns. Whether a system call fails is the platform's decision: the invocation
  carries, for each of the three calls, the error number the platform answers with, or
  \<open>None\<close> when the call goes through. A failed call raises \<open>OSError\<close>, as the socket
  module does; the script has no handler, so the interpreter prints the traceback and exits
  with status 1.

  Around the three calls stands the rest of the process: the import of the socket module
  before them, the interpreter's shutdown after them. Both are the interpreter's doing on
  behalf of the script; they come last in the model, on top of the run of the body.
\<close>

subsection \<open>Values of the socket module\<close>

type_synonym errno = int
type_synonym fd = nat
type_synonym byte = "8 word"

text \<open>
  The exceptions that can end a module body: a platform error raised by the socket module,
  and \<open>SystemExit\<close>, which a call of \<open>sys.exit\<close> raises to end the process with a status of
  its choice.
\<close>

datatype exception = OSError errno | SystemExit int

datatype address_family = AF_UNIX | AF_INET | AF_INET6

datatype socket_kind = SOCK_STREAM | SOCK_DGRAM | SOCK_RAW

datatype protocol = IPPROTO_IP | IPPROTO_TCP | IPPROTO_UDP

datatype option_name = IP_TTL | IP_MULTICAST_TTL | IP_MULTICAST_LOOP | IP_ADD_MEMBERSHIP

text \<open>A bytes literal \<open>b"..."\<close>: one byte for each (ASCII) character.\<close>

definition bytes_literal :: "string \<Rightarrow> byte list" where
  "bytes_literal s = map of_char s"

subsection \<open>The process and its platform\<close>

text \<open>
  A socket as the kernel keeps it: how it was created, and the options set on it, keyed by
  level and option name.
\<close>

record sock_state =
  family :: address_family
  kind :: socket_kind
  proto :: protocol
  options :: "protocol \<times> option_name \<rightharpoonup> int"

text \<open>A datagram handed to the network: destination host, destination port, payload.\<close>

record datagram =
  dst_addr :: string
  dst_port :: int
  payload :: "byte list"

text \<open>
  The system calls a process can make on sockets, files, its standard streams and its
  environment. The script makes the first three only; the others are what the frame
  properties speak about.
\<close>

datatype syscall =
    Sys_socket address_family socket_kind protocol
  | Sys_setsockopt fd protocol option_name int
  | Sys_sendto fd "byte list" string int
  | Sys_bind fd string int
  | Sys_recvfrom fd nat
  | Sys_close fd
  | Sys_write fd "byte list"
  | Sys_open string
  | Sys_getenv string

text \<open>
  One entry of the log: the call, the socket as the call found it (\<open>None\<close> for a call
  that is not made on a socket of the table), and the error it failed with, if any.
\<close>

record log_entry =
  call :: syscall
  found :: "sock_state option"
  err :: "errno option"

record world =
  sockets :: "fd \<rightharpoonup> sock_state"
  next_fd :: fd
  sent :: "datagram list"
  log :: "log_entry list"

text \<open>A fresh process: only the three standard streams are open, nothing has happened.\<close>

definition initial_world :: world where
  "initial_world = \<lparr>sockets = Map.empty, next_fd = 3, sent = [], log = []\<rparr>"

text \<open>
  An invocation: the command line, the environment, and the platform's answer to each of
  the three calls.
\<close>

record invocation =
  argv :: "string list"
  environ :: "string \<rightharpoonup> string"
  socket_errno :: "address_family \<Rightarrow> socket_kind \<Rightarrow> protocol \<Rightarrow> errno option"
  setsockopt_errno :: "sock_state \<Rightarrow> protocol \<Rightarrow> option_name \<Rightarrow> int \<Rightarrow> errno option"
  sendto_errno :: "sock_state \<Rightarrow> byte list \<Rightarrow> string \<Rightarrow> int \<Rightarrow> errno option"

definition EBADF :: errno where
  "EBADF = 9"

subsection \<open>The three calls of the socket module\<close>

text \<open>\<open>socket.socket(family, type, proto)\<close>: a new descriptor, or \<open>OSError\<close>.\<close>

definition socket_socket ::
  "invocation \<Rightarrow> address_family \<Rightarrow> socket_kind \<Rightarrow> protocol \<Rightarrow> world \<Rightarrow> (exception + fd) \<times> world"
where
  "socket_socket iv fam k pr w =
     (case socket_errno iv fam k pr of
        Some e \<Rightarrow>
          (Inl (OSError e),
           w\<lparr>log := log w @ [\<lparr>call = Sys_socket fam k pr, found = None, err = Some e\<rparr>]\<rparr>)
      | None \<Rightarrow>
          (Inr (next_fd w),
           w\<lparr>sockets := (sockets w)(next_fd w \<mapsto>
                  \<lparr>family = fam, kind = k, proto = pr, options = Map.empty\<rparr>),
              next_fd := Suc (next_fd w),
              log := log w @ [\<lparr>call = Sys_socket fam k pr, found = None, err = None\<rparr>]\<rparr>))"

text \<open>\<open>sock.setsockopt(level, optname, value)\<close>: stores the value, or \<open>OSError\<close>.\<close>

definition setsockopt ::
  "invocation \<Rightarrow> fd \<Rightarrow> protocol \<Rightarrow> option_name \<Rightarrow> int \<Rightarrow> world \<Rightarrow> (exception + unit) \<times> world"
where
  "setsockopt iv sock level optname v w =
     (case sockets w sock of
        None \<Rightarrow>
          (Inl (OSError EBADF),
           w\<lparr>log := log w @
                [\<lparr>call = Sys_setsockopt sock level optname v, found = None, err = Some EBADF\<rparr>]\<rparr>)
      | Some s \<Rightarrow>
          (case setsockopt_errno iv s level optname v of
             Some e \<Rightarrow>
               (Inl (OSError e),
                w\<lparr>log := log w @
                     [\<lparr>call = Sys_setsockopt sock level optname v, found = Some s, err = Some e\<rparr>]\<rparr>)
           | None \<Rightarrow>
               (Inr (),
                w\<lparr>sockets := (sockets w)(sock \<mapsto>
                       s\<lparr>options := (options s)((level, optname) \<mapsto> v)\<rparr>),
                   log := log w @
                     [\<lparr>call = Sys_setsockopt sock level optname v, found = Some s, err = None\<rparr>]\<rparr>)))"

text \<open>
  \<open>sock.sendto(data, (host, port))\<close>: hands one datagram to the network and returns the
  number of bytes sent, or \<open>OSError\<close>.
\<close>

definition sendto ::
  "invocation \<Rightarrow> fd \<Rightarrow> byte list \<Rightarrow> string \<times> int \<Rightarrow> world \<Rightarrow> (exception + nat) \<times> world"
where
  "sendto iv sock data address w =
     (case sockets w sock of
        None \<Rightarrow>
          (Inl (OSError EBADF),
           w\<lparr>log := log w @
                [\<lparr>call = Sys_sendto sock data (fst address) (snd address),
                  found = None, err = Some EBADF\<rparr>]\<rparr>)
      | Some s \<Rightarrow>
          (case sendto_errno iv s data (fst address) (snd address) of
             Some e \<Rightarrow>
               (Inl (OSError e),
                w\<lparr>log := log w @
                     [\<lparr>call = Sys_sendto sock data (fst address) (snd address),
                       found = Some s, err = Some e\<rparr>]\<rparr>)
           | None \<Rightarrow>
               (Inr (length data),
                w\<lparr>sent := sent w @
                       [\<lparr>dst_addr = fst address, dst_port = snd address, payload = data\<rparr>],
                   log := log w @
                     [\<lparr>call = Sys_sendto sock data (fst address) (snd address),
                       found = Some s, err = None\<rparr>]\<rparr>)))"

subsection \<open>The script\<close>

definition MCAST_GRP :: string where
  "MCAST_GRP = ''239.255.1.1''"

definition MCAST_PORT :: int where
  "MCAST_PORT = 49788"

definition MULTICAST_TTL :: int where
  "MULTICAST_TTL = 2"

text \<open>
  The module body, statement by statement. An exception raised by a statement ends the
  body there: the statements after it do not run.
\<close>

definition script :: "invocation \<Rightarrow> world \<Rightarrow> (exception + unit) \<times> world" where
  "script iv w0 =
     (case socket_socket iv AF_INET SOCK_DGRAM IPPROTO_UDP w0 of
        (Inl e, w1) \<Rightarrow> (Inl e, w1)
      | (Inr sock, w1) \<Rightarrow>
          (case setsockopt iv sock IPPROTO_IP IP_MULTICAST_TTL MULTICAST_TTL w1 of
             (Inl e, w2) \<Rightarrow> (Inl e, w2)
           | (Inr _, w2) \<Rightarrow>
               (case sendto iv sock (bytes_literal ''robot'') (MCAST_GRP, MCAST_PORT) w2 of
                  (Inl e, w3) \<Rightarrow> (Inl e, w3)
                | (Inr _, w3) \<Rightarrow> (Inr (), w3))))"

text \<open>
  Running the body under the interpreter. The interpreter exits with status 0 when the
  module body reaches its end, and with status 1 after printing the traceback of an
  exception that nothing caught; \<open>SystemExit\<close> is not reported, it exits with the status it
  carries (of which the system keeps the low eight bits). \<open>stdout\<close> is what the process
  wrote to its standard output, \<open>stderr\<close> the tracebacks it printed on its standard error,
  \<open>final\<close> the process state when the body ended.
\<close>

fun exit_status_of :: "exception \<Rightarrow> int" where
  "exit_status_of (OSError _) = 1"
| "exit_status_of (SystemExit n) = n mod 256"

fun traceback_of :: "exception \<Rightarrow> exception list" where
  "traceback_of (OSError e) = [OSError e]"
| "traceback_of (SystemExit _) = []"

record outcome =
  exit_status :: int
  stdout :: "byte list"
  stderr :: "exception list"
  final :: world

definition python3 :: "invocation \<Rightarrow> outcome" where
  "python3 iv =
     (case script iv initial_world of
        (Inl e, w) \<Rightarrow>
          \<lparr>exit_status = exit_status_of e, stdout = [], stderr = traceback_of e, final = w\<rparr>
      | (Inr _, w) \<Rightarrow> \<lparr>exit_status = 0, stdout = [], stderr = [], final = w\<rparr>)"

subsection \<open>The whole process: import, body, shutdown\<close>







subsection \<open>Vocabulary of the properties\<close>

text \<open>
  The socket as \<open>socket.socket\<close> creates it in the script, and as it is once the
  multicast TTL has been stored on it.
\<close>

definition fresh_socket :: sock_state where
  "fresh_socket = \<lparr>family = AF_INET, kind = SOCK_DGRAM, proto = IPPROTO_UDP, options = Map.empty\<rparr>"

definition ttl_socket :: sock_state where
  "ttl_socket = fresh_socket\<lparr>options := [(IPPROTO_IP, IP_MULTICAST_TTL) \<mapsto> 2]\<rparr>"

text \<open>
  The platform's answers to the three calls as the script makes them, and the log entries
  of these calls. The first descriptor of a fresh process is 3.
\<close>

definition create_answer :: "invocation \<Rightarrow> errno option" where
  "create_answer iv = socket_errno iv AF_INET SOCK_DGRAM IPPROTO_UDP"

definition option_answer :: "invocation \<Rightarrow> errno option" where
  "option_answer iv = setsockopt_errno iv fresh_socket IPPROTO_IP IP_MULTICAST_TTL 2"

definition send_answer :: "invocation \<Rightarrow> errno option" where
  "send_answer iv = sendto_errno iv ttl_socket (bytes_literal ''robot'') ''239.255.1.1'' 49788"

definition create_entry :: "errno option \<Rightarrow> log_entry" where
  "create_entry r = \<lparr>call = Sys_socket AF_INET SOCK_DGRAM IPPROTO_UDP, found = None, err = r\<rparr>"

definition option_entry :: "errno option \<Rightarrow> log_entry" where
  "option_entry r =
     \<lparr>call = Sys_setsockopt 3 IPPROTO_IP IP_MULTICAST_TTL 2, found = Some fresh_socket, err = r\<rparr>"

definition send_entry :: "errno option \<Rightarrow> log_entry" where
  "send_entry r =
     \<lparr>call = Sys_sendto 3 (bytes_literal ''robot'') ''239.255.1.1'' 49788,
      found = Some ttl_socket, err = r\<rparr>"

text \<open>Kinds of system calls: a send; an effect on a stream, a file or the environment.\<close>

fun is_sendto :: "syscall \<Rightarrow> bool" where
  "is_sendto (Sys_sendto _ _ _ _) = True"
| "is_sendto _ = False"


text \<open>The descriptor a call operates on, and the calls a process made on a descriptor.\<close>

fun socket_of :: "syscall \<Rightarrow> fd option" where
  "socket_of (Sys_socket _ _ _) = None"
| "socket_of (Sys_setsockopt s _ _ _) = Some s"
| "socket_of (Sys_sendto s _ _ _) = Some s"
| "socket_of (Sys_bind s _ _) = Some s"
| "socket_of (Sys_recvfrom s _) = Some s"
| "socket_of (Sys_close s) = Some s"
| "socket_of (Sys_write s _) = Some s"
| "socket_of (Sys_open _) = None"
| "socket_of (Sys_getenv _) = None"

definition calls_on :: "fd \<Rightarrow> world \<Rightarrow> syscall list" where
  "calls_on s w = filter (\<lambda>c. socket_of c = Some s) (map call (log w))"

text \<open>A successful invocation: the module body runs to its end, no statement raises.\<close>

definition succeeds :: "invocation \<Rightarrow> bool" where
  "succeeds iv = (fst (script iv initial_world) = Inr ())"

text \<open>
  Three platforms: one where every call goes through, one without multicast socket
  options (\<open>ENOPROTOOPT\<close>, 92), one without a route for the datagram
  (\<open>ENETUNREACH\<close>, 101).
\<close>

definition working_platform :: invocation where
  "working_platform =
     \<lparr>argv = [''MCsend.py''], environ = Map.empty,
      socket_errno = (\<lambda>_ _ _. None),
      setsockopt_errno = (\<lambda>_ _ _ _. None),
      sendto_errno = (\<lambda>_ _ _ _. None)\<rparr>"

definition no_multicast_platform :: invocation where
  "no_multicast_platform =
     \<lparr>argv = [''MCsend.py''], environ = Map.empty,
      socket_errno = (\<lambda>_ _ _. None),
      setsockopt_errno =
        (\<lambda>_ level optname _.
           if level = IPPROTO_IP \<and> optname = IP_MULTICAST_TTL then Some 92 else None),
      sendto_errno = (\<lambda>_ _ _ _. None)\<rparr>"

definition unreachable_platform :: invocation where
  "unreachable_platform =
     \<lparr>argv = [''MCsend.py''], environ = Map.empty,
      socket_errno = (\<lambda>_ _ _. None),
      setsockopt_errno = (\<lambda>_ _ _ _. None),
      sendto_errno = (\<lambda>_ _ _ _. Some 101)\<rparr>"



section \<open>The four runs of the script\<close>

text \<open>
  The script has no loop and no branch of its own, so an invocation runs in one of four
  ways, decided by the first call that fails. Each lemma gives the whole outcome of one.
\<close>

lemmas script_defs =
  python3_def script_def socket_socket_def setsockopt_def sendto_def initial_world_def
  MCAST_GRP_def MCAST_PORT_def MULTICAST_TTL_def
  create_answer_def option_answer_def send_answer_def
  create_entry_def option_entry_def send_entry_def fresh_socket_def ttl_socket_def

lemma python3_create_fails:
  assumes "create_answer iv = Some e"
  shows "python3 iv =
    \<lparr>exit_status = 1, stdout = [], stderr = [OSError e],
     final = \<lparr>sockets = Map.empty, next_fd = 3, sent = [], log = [create_entry (Some e)]\<rparr>\<rparr>"
  using assms by (simp add: script_defs)

lemma python3_option_fails:
  assumes "create_answer iv = None" and "option_answer iv = Some e"
  shows "python3 iv =
    \<lparr>exit_status = 1, stdout = [], stderr = [OSError e],
     final = \<lparr>sockets = [3 \<mapsto> fresh_socket], next_fd = 4, sent = [],
              log = [create_entry None, option_entry (Some e)]\<rparr>\<rparr>"
  using assms by (simp add: script_defs)

lemma python3_send_fails:
  assumes "create_answer iv = None" and "option_answer iv = None" and "send_answer iv = Some e"
  shows "python3 iv =
    \<lparr>exit_status = 1, stdout = [], stderr = [OSError e],
     final = \<lparr>sockets = [3 \<mapsto> ttl_socket], next_fd = 4, sent = [],
              log = [create_entry None, option_entry None, send_entry (Some e)]\<rparr>\<rparr>"
  using assms by (simp add: script_defs)

lemma python3_all_succeed:
  assumes "create_answer iv = None" and "option_answer iv = None" and "send_answer iv = None"
  shows "python3 iv =
    \<lparr>exit_status = 0, stdout = [], stderr = [],
     final = \<lparr>sockets = [3 \<mapsto> ttl_socket], next_fd = 4,
              sent = [\<lparr>dst_addr = ''239.255.1.1'', dst_port = 49788,
                       payload = bytes_literal ''robot''\<rparr>],
              log = [create_entry None, option_entry None, send_entry None]\<rparr>\<rparr>"
  using assms by (simp add: script_defs)

lemma python3_cases [case_names create_fails option_fails send_fails all_succeed]:
  obtains
    e where "create_answer iv = Some e"
  | e where "create_answer iv = None" and "option_answer iv = Some e"
  | e where "create_answer iv = None" and "option_answer iv = None" and "send_answer iv = Some e"
  | "create_answer iv = None" and "option_answer iv = None" and "send_answer iv = None"
  by (cases "create_answer iv"; cases "option_answer iv"; cases "send_answer iv") auto

lemma succeeds_iff:
  "succeeds iv \<longleftrightarrow> create_answer iv = None \<and> option_answer iv = None \<and> send_answer iv = None"
  by (cases iv rule: python3_cases) (simp_all add: succeeds_def script_defs)

lemma working_platform_answers:
  "create_answer working_platform = None"
  "option_answer working_platform = None"
  "send_answer working_platform = None"
  by (simp_all add: working_platform_def create_answer_def option_answer_def send_answer_def)

lemma no_multicast_platform_answers:
  "create_answer no_multicast_platform = None"
  "option_answer no_multicast_platform = Some 92"
  by (simp_all add: no_multicast_platform_def create_answer_def option_answer_def)

lemma unreachable_platform_answers:
  "create_answer unreachable_platform = None"
  "option_answer unreachable_platform = None"
  "send_answer unreachable_platform = Some 101"
  by (simp_all add: unreachable_platform_def create_answer_def option_answer_def send_answer_def)

text \<open>
  No call of the socket module reads the command line, so neither does the script.
\<close>

lemma calls_ignore_argv:
  "socket_socket (iv\<lparr>argv := a\<rparr>) = socket_socket iv"
  "setsockopt (iv\<lparr>argv := a\<rparr>) = setsockopt iv"
  "sendto (iv\<lparr>argv := a\<rparr>) = sendto iv"
  by (simp_all add: fun_eq_iff socket_socket_def setsockopt_def sendto_def split: option.splits)

lemma python3_ignores_argv: "python3 (iv\<lparr>argv := a\<rparr>) = python3 iv"
  unfolding python3_def script_def calls_ignore_argv ..

section \<open>Properties\<close>

text \<open>
  C1. A successful invocation opens an IPv4/UDP datagram socket (the first call of the
  process, which goes through) and hands exactly one datagram to the network: destination
  address 239.255.1.1, destination port 49788, payload the five bytes 72 6F 62 6F 74
  ("robot") and nothing else.
\<close>

theorem single_datagram_to_group:
  assumes "succeeds iv"
  shows "hd (log (final (python3 iv))) =
           \<lparr>call = Sys_socket AF_INET SOCK_DGRAM IPPROTO_UDP, found = None, err = None\<rparr>
       \<and> sent (final (python3 iv)) =
           [\<lparr>dst_addr = ''239.255.1.1'', dst_port = 49788,
             payload = [0x72, 0x6F, 0x62, 0x6F, 0x74]\<rparr>]"
  using assms
  by (simp add: succeeds_iff python3_all_succeed create_entry_def bytes_literal_def)

theorem single_datagram_to_group_witness:
  "succeeds working_platform
   \<and> hd (log (final (python3 working_platform))) =
           \<lparr>call = Sys_socket AF_INET SOCK_DGRAM IPPROTO_UDP, found = None, err = None\<rparr>
   \<and> sent (final (python3 working_platform)) =
           [\<lparr>dst_addr = ''239.255.1.1'', dst_port = 49788,
             payload = [0x72, 0x6F, 0x62, 0x6F, 0x74]\<rparr>]"
proof -
  have ok: "succeeds working_platform"
    by (simp add: succeeds_iff working_platform_answers)
  from ok single_datagram_to_group [OF ok] show ?thesis by simp
qed

text \<open>
  C2. In every invocation, a send finds the multicast TTL of its socket set to 2 at the IP
  level: whenever the log holds a \<open>sendto\<close> call, the socket as that call found it has the
  option (\<open>IPPROTO_IP\<close>, \<open>IP_MULTICAST_TTL\<close>) at 2, and a \<open>setsockopt\<close> call on the same
  descriptor that stored this value went through strictly earlier in the log.
\<close>

theorem ttl_is_two_when_sending:
  assumes "log (final (python3 iv)) = before @ c # after" and "is_sendto (call c)"
  shows "(\<exists>s. found c = Some s \<and> options s (IPPROTO_IP, IP_MULTICAST_TTL) = Some 2)
       \<and> (\<exists>d. d \<in> set before \<and> call d = Sys_setsockopt 3 IPPROTO_IP IP_MULTICAST_TTL 2
                \<and> err d = None \<and> socket_of (call c) = Some 3)"
proof (cases iv rule: python3_cases)
  case (create_fails e)
  with assms show ?thesis
    by (auto simp: python3_create_fails create_entry_def append_eq_Cons_conv Cons_eq_append_conv)
next
  case (option_fails e)
  with assms show ?thesis
    by (auto simp: python3_option_fails create_entry_def option_entry_def
          append_eq_Cons_conv Cons_eq_append_conv)
next
  case (send_fails e)
  with assms show ?thesis
    by (auto simp: python3_send_fails create_entry_def option_entry_def send_entry_def
          ttl_socket_def fresh_socket_def append_eq_Cons_conv Cons_eq_append_conv)
next
  case all_succeed
  with assms show ?thesis
    by (auto simp: python3_all_succeed create_entry_def option_entry_def send_entry_def
          ttl_socket_def fresh_socket_def append_eq_Cons_conv Cons_eq_append_conv)
qed

theorem ttl_is_two_when_sending_witness:
  "log (final (python3 working_platform)) =
     [create_entry None, option_entry None] @ send_entry None # []
   \<and> is_sendto (call (send_entry None))
   \<and> (\<exists>s. found (send_entry None) = Some s
          \<and> options s (IPPROTO_IP, IP_MULTICAST_TTL) = Some 2)
   \<and> (\<exists>d. d \<in> set [create_entry None, option_entry None]
          \<and> call d = Sys_setsockopt 3 IPPROTO_IP IP_MULTICAST_TTL 2
          \<and> err d = None \<and> socket_of (call (send_entry None)) = Some 3)"
proof -
  have l: "log (final (python3 working_platform)) =
             [create_entry None, option_entry None] @ send_entry None # []"
    by (simp add: python3_all_succeed working_platform_answers)
  have s: "is_sendto (call (send_entry None))"
    by (simp add: send_entry_def)
  from l s ttl_is_two_when_sending [OF l s] show ?thesis by blast
qed

text \<open>
  C3. In every invocation where one of the calls (creating the socket, setting the option,
  sending) fails with a platform error, the process exits with a non-zero status, the
  traceback of that very error is what it prints, and the failed call is the last call it
  makes: nothing is sent, and there is at most one attempt to send.
\<close>

theorem failure_is_fatal:
  assumes "c \<in> set (log (final (python3 iv)))" and "err c = Some e"
  shows "exit_status (python3 iv) \<noteq> 0
       \<and> stderr (python3 iv) = [OSError e]
       \<and> last (log (final (python3 iv))) = c
       \<and> sent (final (python3 iv)) = []
       \<and> length (filter is_sendto (map call (log (final (python3 iv))))) \<le> 1"
proof (cases iv rule: python3_cases)
  case (create_fails e')
  with assms show ?thesis
    by (auto simp: python3_create_fails create_entry_def)
next
  case (option_fails e')
  with assms show ?thesis
    by (auto simp: python3_option_fails create_entry_def option_entry_def)
next
  case (send_fails e')
  with assms show ?thesis
    by (auto simp: python3_send_fails create_entry_def option_entry_def send_entry_def)
next
  case all_succeed
  with assms show ?thesis
    by (auto simp: python3_all_succeed create_entry_def option_entry_def send_entry_def)
qed

theorem failure_is_fatal_witness:
  "send_entry (Some 101) \<in> set (log (final (python3 unreachable_platform)))
   \<and> err (send_entry (Some 101)) = Some 101
   \<and> exit_status (python3 unreachable_platform) \<noteq> 0
   \<and> stderr (python3 unreachable_platform) = [OSError 101]
   \<and> last (log (final (python3 unreachable_platform))) = send_entry (Some 101)
   \<and> sent (final (python3 unreachable_platform)) = []
   \<and> length (filter is_sendto (map call (log (final (python3 unreachable_platform))))) \<le> 1"
proof -
  have m: "send_entry (Some 101) \<in> set (log (final (python3 unreachable_platform)))"
    by (simp add: python3_send_fails unreachable_platform_answers)
  have f: "err (send_entry (Some 101)) = Some 101"
    by (simp add: send_entry_def)
  from m f failure_is_fatal [OF m f] show ?thesis by blast
qed

text \<open>
  C4. On a platform where setting the multicast TTL at the IP level fails, whatever the
  socket and the value, the process exits with a non-zero status, \<open>sendto\<close> is never
  called and no datagram reaches the network.
\<close>

theorem no_send_without_multicast_ttl:
  assumes "\<And>s v. setsockopt_errno iv s IPPROTO_IP IP_MULTICAST_TTL v \<noteq> None"
  shows "exit_status (python3 iv) \<noteq> 0
       \<and> filter is_sendto (map call (log (final (python3 iv)))) = []
       \<and> sent (final (python3 iv)) = []"
proof -
  from assms obtain e where o: "option_answer iv = Some e"
    by (auto simp: option_answer_def)
  show ?thesis
  proof (cases "create_answer iv")
    case None
    with o show ?thesis
      by (simp add: python3_option_fails create_entry_def option_entry_def)
  next
    case (Some e')
    then show ?thesis
      by (simp add: python3_create_fails create_entry_def)
  qed
qed

theorem no_send_without_multicast_ttl_witness:
  "(\<forall>s v. setsockopt_errno no_multicast_platform s IPPROTO_IP IP_MULTICAST_TTL v \<noteq> None)
   \<and> exit_status (python3 no_multicast_platform) \<noteq> 0
   \<and> filter is_sendto (map call (log (final (python3 no_multicast_platform)))) = []
   \<and> sent (final (python3 no_multicast_platform)) = []"
proof -
  have h: "\<And>s v. setsockopt_errno no_multicast_platform s IPPROTO_IP IP_MULTICAST_TTL v \<noteq> None"
    by (simp add: no_multicast_platform_def)
  from h no_send_without_multicast_ttl [of no_multicast_platform, OF h] show ?thesis by blast
qed

text \<open>
  C5. A successful invocation emits exactly one datagram: the network receives one, the log
  holds one \<open>sendto\<close> call, and the process makes three calls in all (create, set the
  option, send), so nothing is repeated.
\<close>

theorem exactly_one_packet:
  assumes "succeeds iv"
  shows "length (sent (final (python3 iv))) = 1
       \<and> filter is_sendto (map call (log (final (python3 iv)))) =
           [Sys_sendto 3 (bytes_literal ''robot'') ''239.255.1.1'' 49788]
       \<and> length (log (final (python3 iv))) = 3"
  using assms
  by (simp add: succeeds_iff python3_all_succeed create_entry_def option_entry_def send_entry_def)

theorem exactly_one_packet_witness:
  "succeeds working_platform
   \<and> length (sent (final (python3 working_platform))) = 1
   \<and> filter is_sendto (map call (log (final (python3 working_platform)))) =
           [Sys_sendto 3 (bytes_literal ''robot'') ''239.255.1.1'' 49788]
   \<and> length (log (final (python3 working_platform))) = 3"
proof -
  have ok: "succeeds working_platform"
    by (simp add: succeeds_iff working_platform_answers)
  from ok exactly_one_packet [OF ok] show ?thesis by simp
qed

text \<open>
  C6. Any two successful invocations emit the same datagrams: same destination address, same
  port, same payload, whatever their command lines, environments and platforms.
\<close>

theorem same_datagram_every_run:
  assumes "succeeds iv1" and "succeeds iv2"
  shows "sent (final (python3 iv1)) = sent (final (python3 iv2))
       \<and> sent (final (python3 iv1)) \<noteq> []"
  using assms by (simp add: succeeds_iff python3_all_succeed)

theorem same_datagram_every_run_witness:
  "succeeds working_platform
   \<and> succeeds (working_platform\<lparr>argv := [''MCsend.py'', ''again''],
                                environ := [''TZ'' \<mapsto> ''UTC'']\<rparr>)
   \<and> sent (final (python3 working_platform)) =
       sent (final (python3 (working_platform\<lparr>argv := [''MCsend.py'', ''again''],
                                               environ := [''TZ'' \<mapsto> ''UTC'']\<rparr>)))
   \<and> sent (final (python3 working_platform)) \<noteq> []"
proof -
  have a: "succeeds working_platform"
    by (simp add: succeeds_iff working_platform_answers)
  have b: "succeeds (working_platform\<lparr>argv := [''MCsend.py'', ''again''],
                                      environ := [''TZ'' \<mapsto> ''UTC'']\<rparr>)"
    by (simp add: succeeds_iff working_platform_def
          create_answer_def option_answer_def send_answer_def)
  from a b same_datagram_every_run [OF a b] show ?thesis by blast
qed




text \<open>
  C8. The script never calls exit: in no invocation does the body end with \<open>SystemExit\<close>.
  And in an invocation where no call fails, the body falls off its end, so that the process
  exits with the interpreter's status 0, with nothing on standard output.
\<close>

theorem success_exits_zero:
  "(\<forall>n. fst (script iv initial_world) \<noteq> Inl (SystemExit n))
   \<and> ((\<forall>c \<in> set (log (final (python3 iv))). err c = None) \<longrightarrow>
        fst (script iv initial_world) = Inr ()
        \<and> exit_status (python3 iv) = 0
        \<and> stdout (python3 iv) = [])"
proof (cases iv rule: python3_cases)
  case (create_fails e)
  then have "fst (script iv initial_world) = Inl (OSError e)"
    by (simp add: script_defs)
  with create_fails show ?thesis
    by (simp add: python3_create_fails create_entry_def)
next
  case (option_fails e)
  then have "fst (script iv initial_world) = Inl (OSError e)"
    by (simp add: script_defs)
  with option_fails show ?thesis
    by (simp add: python3_option_fails create_entry_def option_entry_def)
next
  case (send_fails e)
  then have "fst (script iv initial_world) = Inl (OSError e)"
    by (simp add: script_defs)
  with send_fails show ?thesis
    by (simp add: python3_send_fails create_entry_def option_entry_def send_entry_def)
next
  case all_succeed
  then have "fst (script iv initial_world) = Inr ()"
    using succeeds_iff [of iv] by (simp add: succeeds_def)
  with all_succeed show ?thesis
    by (simp add: python3_all_succeed)
qed

theorem success_exits_zero_witness:
  "map err (log (final (python3 working_platform))) = [None, None, None]
   \<and> fst (script working_platform initial_world) = Inr ()
   \<and> exit_status (python3 working_platform) = 0
   \<and> stdout (python3 working_platform) = []"
proof -
  have l: "log (final (python3 working_platform)) =
             [create_entry None, option_entry None, send_entry None]"
    by (simp add: python3_all_succeed working_platform_answers)
  have h: "\<forall>c \<in> set (log (final (python3 working_platform))). err c = None"
    by (simp add: l create_entry_def option_entry_def send_entry_def)
  from h success_exits_zero [of working_platform] show ?thesis
    by (simp add: l create_entry_def option_entry_def send_entry_def)
qed

text \<open>
  C9. The command line is ignored: for any two argument vectors, all else equal, the whole
  outcome (exit status, output, datagrams sent, calls made) is the same.
\<close>

theorem argv_is_ignored:
  "python3 (iv\<lparr>argv := a1\<rparr>) = python3 (iv\<lparr>argv := a2\<rparr>)"
  by (simp add: python3_ignores_argv)

text \<open>
  C10. On the descriptor that \<open>socket.socket\<close> returns, the process makes the
  \<open>setsockopt\<close> call and then, unless that failed, the \<open>sendto\<close> call, and no other
  call: no bind, no receive, no membership of the group, no close. In a successful
  invocation it makes exactly these two, and the socket is still open when the body ends.
\<close>

theorem socket_only_configured_and_sent_on:
  assumes "fst (socket_socket iv AF_INET SOCK_DGRAM IPPROTO_UDP initial_world) = Inr sock"
  shows "calls_on sock (final (python3 iv)) \<in> set
           [[Sys_setsockopt sock IPPROTO_IP IP_MULTICAST_TTL 2],
            [Sys_setsockopt sock IPPROTO_IP IP_MULTICAST_TTL 2,
             Sys_sendto sock (bytes_literal ''robot'') ''239.255.1.1'' 49788]]
       \<and> (succeeds iv \<longrightarrow> calls_on sock (final (python3 iv)) =
            [Sys_setsockopt sock IPPROTO_IP IP_MULTICAST_TTL 2,
             Sys_sendto sock (bytes_literal ''robot'') ''239.255.1.1'' 49788])
       \<and> Sys_close sock \<notin> set (map call (log (final (python3 iv))))
       \<and> sockets (final (python3 iv)) sock \<noteq> None"
proof -
  from assms have c: "create_answer iv = None" and s: "sock = 3"
    by (auto simp: socket_socket_def initial_world_def create_answer_def split: option.splits)
  show ?thesis
  proof (cases iv rule: python3_cases)
    case (create_fails e)
    with c show ?thesis by simp
  next
    case (option_fails e)
    with s show ?thesis
      by (simp add: python3_option_fails succeeds_iff calls_on_def
            create_entry_def option_entry_def)
  next
    case (send_fails e)
    with s show ?thesis
      by (simp add: python3_send_fails succeeds_iff calls_on_def
            create_entry_def option_entry_def send_entry_def)
  next
    case all_succeed
    with s show ?thesis
      by (simp add: python3_all_succeed succeeds_iff calls_on_def
            create_entry_def option_entry_def send_entry_def)
  qed
qed

theorem socket_only_configured_and_sent_on_witness:
  "fst (socket_socket working_platform AF_INET SOCK_DGRAM IPPROTO_UDP initial_world) = Inr 3
   \<and> succeeds working_platform
   \<and> calls_on 3 (final (python3 working_platform)) =
        [Sys_setsockopt 3 IPPROTO_IP IP_MULTICAST_TTL 2,
         Sys_sendto 3 (bytes_literal ''robot'') ''239.255.1.1'' 49788]
   \<and> Sys_close 3 \<notin> set (map call (log (final (python3 working_platform))))
   \<and> sockets (final (python3 working_platform)) 3 \<noteq> None"
proof -
  have h: "fst (socket_socket working_platform AF_INET SOCK_DGRAM IPPROTO_UDP initial_world) = Inr 3"
    by (simp add: socket_socket_def working_platform_def initial_world_def)
  have ok: "succeeds working_platform"
    by (simp add: succeeds_iff working_platform_answers)
  from h ok socket_only_configured_and_sent_on [OF h] show ?thesis by simp
qed

end
